theory Spec2Isabelle
  imports Main
begin

section \<open>The JavaScript fragment of the configuration modules\<close>

text \<open>
  The two configuration files of the repository,
  \<^verbatim>\<open>detecting-classes/tailwind.config.js\<close> and
  \<^verbatim>\<open>functions-directives/tailwind.config.js\<close>, are ES modules made of one
  statement, \<^verbatim>\<open>export default { ... }\<close>, whose operand is built from object
  literals, array literals and string literals only. The README files add
  configuration examples that also use number-named properties and one regular
  expression literal.

  The fragment below has these literal forms and, beside them, the two
  expression forms that read and write the enclosing scope (an identifier and an
  assignment), so that evaluation is a function of the scope and can fail.
\<close>

datatype propname = PName string | PNum nat

datatype expr =
    Str string
  | Regex string
  | Arr "expr list"
  | Obj "(propname \<times> expr) list"
  | Ident string
  | Assign string expr

datatype stmt = ExportDefault expr | ExprStmt expr

type_synonym js_module = "stmt list"

datatype jsval =
    VStr string
  | VRegex string
  | VArr "jsval list"
  | VObj "(string \<times> jsval) list"

datatype error = ReferenceError string | SyntaxError

type_synonym scope = "(string \<times> jsval) list"

text \<open>A number-named property such as \<^verbatim>\<open>50:\<close> is stored under its decimal string.\<close>

fun string_of_nat :: "nat \<Rightarrow> string" where
  "string_of_nat n =
     (if n < 10 then [''0123456789'' ! n]
      else string_of_nat (n div 10) @ [''0123456789'' ! (n mod 10)])"

declare string_of_nat.simps [simp del]

fun key_string :: "propname \<Rightarrow> string" where
  "key_string (PName s) = s"
| "key_string (PNum n) = string_of_nat n"

text \<open>
  Defining a property that the object already has replaces its value and keeps
  its place; a new property goes to the end.
\<close>

fun obj_put :: "(string \<times> jsval) list \<Rightarrow> string \<Rightarrow> jsval \<Rightarrow> (string \<times> jsval) list" where
  "obj_put [] k v = [(k, v)]"
| "obj_put ((k', v') # ps) k v =
     (if k' = k then (k, v) # ps else (k', v') # obj_put ps k v)"

text \<open>
  Evaluation goes left to right and threads the scope. Reading or assigning an
  undeclared name raises \<open>ReferenceError\<close> (modules are strict code).
\<close>

fun eval :: "expr \<Rightarrow> scope \<Rightarrow> error + (jsval \<times> scope)"
and eval_elems :: "expr list \<Rightarrow> scope \<Rightarrow> error + (jsval list \<times> scope)"
and eval_props :: "(propname \<times> expr) list \<Rightarrow> (string \<times> jsval) list \<Rightarrow> scope
                     \<Rightarrow> error + ((string \<times> jsval) list \<times> scope)"
where
  "eval (Str s) sc = Inr (VStr s, sc)"
| "eval (Regex r) sc = Inr (VRegex r, sc)"
| "eval (Arr es) sc =
     (case eval_elems es sc of
        Inl err \<Rightarrow> Inl err
      | Inr (vs, sc') \<Rightarrow> Inr (VArr vs, sc'))"
| "eval (Obj ps) sc =
     (case eval_props ps [] sc of
        Inl err \<Rightarrow> Inl err
      | Inr (kvs, sc') \<Rightarrow> Inr (VObj kvs, sc'))"
| "eval (Ident x) sc =
     (case map_of sc x of
        None \<Rightarrow> Inl (ReferenceError x)
      | Some v \<Rightarrow> Inr (v, sc))"
| "eval (Assign x e) sc =
     (case eval e sc of
        Inl err \<Rightarrow> Inl err
      | Inr (v, sc') \<Rightarrow>
          (case map_of sc' x of
             None \<Rightarrow> Inl (ReferenceError x)
           | Some _ \<Rightarrow> Inr (v, obj_put sc' x v)))"
| "eval_elems [] sc = Inr ([], sc)"
| "eval_elems (e # es) sc =
     (case eval e sc of
        Inl err \<Rightarrow> Inl err
      | Inr (v, sc') \<Rightarrow>
          (case eval_elems es sc' of
             Inl err \<Rightarrow> Inl err
           | Inr (vs, sc'') \<Rightarrow> Inr (v # vs, sc'')))"
| "eval_props [] acc sc = Inr (acc, sc)"
| "eval_props ((k, e) # ps) acc sc =
     (case eval e sc of
        Inl err \<Rightarrow> Inl err
      | Inr (v, sc') \<Rightarrow> eval_props ps (obj_put acc (key_string k) v) sc')"

text \<open>
  A module with more than one \<^verbatim>\<open>export default\<close> is rejected before it runs.
  Running a module gives its default export, if it has one, and the scope it
  leaves behind.
\<close>

fun is_export_default :: "stmt \<Rightarrow> bool" where
  "is_export_default (ExportDefault _) = True"
| "is_export_default (ExprStmt _) = False"

fun run_stmts :: "stmt list \<Rightarrow> jsval option \<Rightarrow> scope \<Rightarrow> error + (jsval option \<times> scope)" where
  "run_stmts [] ex sc = Inr (ex, sc)"
| "run_stmts (ExportDefault e # ss) ex sc =
     (case eval e sc of
        Inl err \<Rightarrow> Inl err
      | Inr (v, sc') \<Rightarrow> run_stmts ss (Some v) sc')"
| "run_stmts (ExprStmt e # ss) ex sc =
     (case eval e sc of
        Inl err \<Rightarrow> Inl err
      | Inr (_, sc') \<Rightarrow> run_stmts ss ex sc')"

definition run_module :: "js_module \<Rightarrow> scope \<Rightarrow> error + (jsval option \<times> scope)" where
  "run_module m sc =
     (if 1 < length (filter is_export_default m) then Inl SyntaxError
      else run_stmts m None sc)"

definition exported :: "js_module \<Rightarrow> jsval option" where
  "exported m =
     (case run_module m [] of
        Inr (Some v, _) \<Rightarrow> Some v
      | _ \<Rightarrow> None)"

section \<open>The configuration files\<close>

text \<open>\<^verbatim>\<open>detecting-classes/tailwind.config.js\<close>\<close>

definition detecting_classes_config :: js_module where
  "detecting_classes_config =
     [ExportDefault (Obj
        [(PName ''content'', Arr [Str ''./index.html'', Str ''./src/**/*.{js,ts,jsx,tsx}'']),
         (PName ''theme'', Obj [(PName ''extend'', Obj [])]),
         (PName ''plugins'', Arr [])])]"

text \<open>\<^verbatim>\<open>functions-directives/tailwind.config.js\<close>\<close>

definition functions_directives_config :: js_module where
  "functions_directives_config =
     [ExportDefault (Obj
        [(PName ''content'', Arr [Str ''./index.html'', Str ''./src/**/*.{js,ts,jsx,tsx}'']),
         (PName ''theme'', Obj
            [(PName ''extend'', Obj
                [(PName ''colors'', Obj
                    [(PName ''brand'', Obj
                        [(PName ''light'', Str ''var(--color-brand-light)''),
                         (PName ''DEFAULT'', Str ''var(--color-brand)''),
                         (PName ''dark'', Str ''var(--color-brand-dark)'')])]),
                 (PName ''spacing'', Obj
                    [(PName ''dynamic'', Str ''var(--spacing-dynamic)'')]),
                 (PName ''fontSize'', Obj
                    [(PName ''responsive'', Str ''clamp(1rem, 2.5vw, 2.5rem)'')])])]),
         (PName ''plugins'', Arr [])])]"

definition config_files :: "(string \<times> js_module) list" where
  "config_files =
     [(''detecting-classes/tailwind.config.js'', detecting_classes_config),
      (''functions-directives/tailwind.config.js'', functions_directives_config)]"

section \<open>Reading a configuration object\<close>

fun is_object :: "jsval \<Rightarrow> bool" where
  "is_object (VObj _) = True"
| "is_object _ = False"

fun entries :: "jsval \<Rightarrow> (string \<times> jsval) list" where
  "entries (VObj ps) = ps"
| "entries _ = []"

definition keys :: "jsval \<Rightarrow> string list" where
  "keys v = map fst (entries v)"

fun field :: "string \<Rightarrow> jsval \<Rightarrow> jsval option" where
  "field k (VObj ps) = map_of ps k"
| "field k _ = None"

fun lookup_path :: "string list \<Rightarrow> jsval \<Rightarrow> jsval option" where
  "lookup_path [] v = Some v"
| "lookup_path (k # ks) v =
     (case field k v of None \<Rightarrow> None | Some v' \<Rightarrow> lookup_path ks v')"

definition config_field :: "string \<Rightarrow> js_module \<Rightarrow> jsval option" where
  "config_field k m = (case exported m of None \<Rightarrow> None | Some cfg \<Rightarrow> field k cfg)"

section \<open>Configuration examples of the README files\<close>

text \<open>
  The README of the detecting-classes project shows a safelist and a blocklist
  module. Its third example shows the \<^verbatim>\<open>safelist:\<close> property alone; it is
  modelled inside the object it belongs to.
\<close>

definition safelist_example :: js_module where
  "safelist_example =
     [ExportDefault (Obj
        [(PName ''safelist'', Arr
            [Str ''bg-red-500'',
             Str ''bg-blue-500'',
             Str ''text-white'',
             Obj [(PName ''pattern'', Regex ''bg-(red|green|blue)-(50|100|500)'')]])])]"

definition blocklist_example :: js_module where
  "blocklist_example =
     [ExportDefault (Obj
        [(PName ''blocklist'', Arr [Str ''container'', Str ''px-0.5''])])]"

definition dynamic_safelist_example :: js_module where
  "dynamic_safelist_example =
     [ExportDefault (Obj
        [(PName ''safelist'', Arr
            [Str ''bg-red-500'', Str ''bg-green-500'', Str ''bg-blue-500''])])]"

definition list_examples :: "js_module list" where
  "list_examples = [safelist_example, blocklist_example, dynamic_safelist_example]"

text \<open>
  The README of the theme-variables project gives the complete brand scale as
  the property \<^verbatim>\<open>brand: { 50: '#...', ..., 900: '#...' }\<close>, with the
  placeholder \<^verbatim>\<open>'#...'\<close> for every value; it is modelled inside an object.
  The README of the colors project gives a palette module whose brand scale has
  three shades.

  The same README of the theme-variables project has three more
  \<^verbatim>\<open>colors:\<close> properties, each modelled inside an object: the custom colors
  listing, whose brand scale writes the shades 50 and 100 and leaves the others
  to the comment \<^verbatim>\<open>// ... through 900\<close>, beside an accent scale; and two
  listings of plain colors under semantic and under color-based names. Its
  remaining fences write \<^verbatim>\<open>brand: {...}\<close> or \<^verbatim>\<open>colors: { /* ... */ }\<close>
  with the body left out; they write no key of a scale and are not modelled.
\<close>

definition complete_scale_example :: js_module where
  "complete_scale_example =
     [ExportDefault (Obj
        [(PName ''brand'', Obj
            [(PNum 50, Str ''#...''),
             (PNum 100, Str ''#...''),
             (PNum 200, Str ''#...''),
             (PNum 300, Str ''#...''),
             (PNum 400, Str ''#...''),
             (PNum 500, Str ''#...''),
             (PNum 600, Str ''#...''),
             (PNum 700, Str ''#...''),
             (PNum 800, Str ''#...''),
             (PNum 900, Str ''#...'')])])]"

definition palette_example :: js_module where
  "palette_example =
     [ExportDefault (Obj
        [(PName ''theme'', Obj
            [(PName ''colors'', Obj
                [(PName ''transparent'', Str ''transparent''),
                 (PName ''current'', Str ''currentColor''),
                 (PName ''white'', Str ''#ffffff''),
                 (PName ''black'', Str ''#000000''),
                 (PName ''brand'', Obj
                    [(PNum 50, Str ''#f0f9ff''),
                     (PNum 500, Str ''#0ea5e9''),
                     (PNum 900, Str ''#0c3d66'')])])])])]"

definition custom_colors_example :: js_module where
  "custom_colors_example =
     [ExportDefault (Obj
        [(PName ''colors'', Obj
            [(PName ''brand'', Obj
                [(PNum 50, Str ''#f0f9ff''),
                 (PNum 100, Str ''#e0f2fe'')]),
             (PName ''accent'', Obj
                [(PName ''light'', Str ''#fbbf24''),
                 (PName ''DEFAULT'', Str ''#f59e0b''),
                 (PName ''dark'', Str ''#d97706'')])])])]"

definition semantic_names_example :: js_module where
  "semantic_names_example =
     [ExportDefault (Obj
        [(PName ''colors'', Obj
            [(PName ''primary'', Str ''#0ea5e9''),
             (PName ''success'', Str ''#10b981''),
             (PName ''error'', Str ''#ef4444'')])])]"

definition color_names_example :: js_module where
  "color_names_example =
     [ExportDefault (Obj
        [(PName ''colors'', Obj
            [(PName ''blue'', Str ''#0ea5e9''),
             (PName ''green'', Str ''#10b981''),
             (PName ''red'', Str ''#ef4444'')])])]"

text \<open>
  Every place that writes colors: the file or fence, the path of its
  \<^verbatim>\<open>colors\<close> object (of the object that holds the scale, for the complete
  scale), and the module.
\<close>

definition color_sources :: "(string \<times> string list \<times> js_module) list" where
  "color_sources =
     [(''functions-directives/tailwind.config.js'',
         [''theme'', ''extend'', ''colors''], functions_directives_config),
      (''detecting-classes/tailwind.config.js'',
         [''theme'', ''extend'', ''colors''], detecting_classes_config),
      (''theme-variables README: custom colors'', [''colors''], custom_colors_example),
      (''theme-variables README: complete scale'', [], complete_scale_example),
      (''theme-variables README: semantic names'', [''colors''], semantic_names_example),
      (''theme-variables README: color-based names'', [''colors''], color_names_example),
      (''colors README: palette'', [''theme'', ''colors''], palette_example)]"

section \<open>Stylesheet examples of the README files\<close>

text \<open>
  Stylesheets are shown in two README files only: sixteen fences in the README
  of the functions-directives project, the stylesheet entry \<^verbatim>\<open>style.css\<close>
  among them, and five in the README of the custom-styles project. Every fence
  is modelled, item by item. A style rule is kept as its selector, and a block
  that holds style rules (a layer, a media query, a feature query) as the
  selectors inside it; a layer, a keyframes rule, a font face and an import keep
  their name. The line of markup that one fence shows after its rule is left
  out.
\<close>

datatype css_item =
    AtTailwind string
  | AtLayer string "string list"
  | Rule string
  | AtApply "string list"
  | AtMedia "string list"
  | AtSupports "string list"
  | AtKeyframes string
  | AtImport string
  | AtFontFace string

text \<open>The README of the functions-directives project, in the order of its fences.\<close>

definition directives_example :: "css_item list" where
  "directives_example =
     [AtTailwind ''base'', AtTailwind ''components'', AtTailwind ''utilities'']"

definition layer_example :: "css_item list" where
  "layer_example =
     [AtLayer ''components'' [''.btn-custom''], AtLayer ''utilities'' [''.text-shadow'']]"

definition apply_example :: "css_item list" where
  "apply_example = [Rule ''.btn-primary'']"

definition theme_function_example :: "css_item list" where
  "theme_function_example = [Rule ''.header'']"

definition root_variables_example :: "css_item list" where
  "root_variables_example = [Rule '':root'']"

definition media_example :: "css_item list" where
  "media_example = [AtMedia [''.sidebar''], AtMedia [''body''], AtMedia [''*'']]"

definition keyframes_example :: "css_item list" where
  "keyframes_example = [AtKeyframes ''gradient-shift'', Rule ''.animated'']"

definition supports_example :: "css_item list" where
  "supports_example = [Rule ''.layout'', AtSupports [''.layout'']]"

definition import_example :: "css_item list" where
  "import_example =
     [AtImport ''https://fonts.googleapis.com/css2?family=Inter'', AtLayer ''base'' [''body'']]"

definition font_face_example :: "css_item list" where
  "font_face_example = [AtFontFace ''CustomFont'', AtLayer ''base'' [''body'']]"

definition notification_example :: "css_item list" where
  "notification_example = [AtLayer ''components'' [''.notification'']]"

definition css_variables_example :: "css_item list" where
  "css_variables_example = [AtLayer ''base'' ['':root'']]"

definition slide_in_example :: "css_item list" where
  "slide_in_example = [AtKeyframes ''slide-in'', Rule ''.hero'']"

definition reduced_motion_example :: "css_item list" where
  "reduced_motion_example = [AtMedia [''*'']]"

definition grid_layout_example :: "css_item list" where
  "grid_layout_example = [AtSupports [''.grid-layout'']]"

definition stylesheet_entry :: "css_item list" where
  "stylesheet_entry =
     [AtTailwind ''base'', AtTailwind ''components'', AtTailwind ''utilities'',
      AtLayer ''base'' [], AtLayer ''components'' [], AtLayer ''utilities'' []]"

text \<open>The README of the custom-styles project, in the order of its fences.\<close>

definition apply_syntax_example :: "css_item list" where
  "apply_syntax_example =
     [AtApply [''utility-class1'', ''utility-class2'', ''utility-class3'']]"

definition button_example :: "css_item list" where
  "button_example = [AtLayer ''components'' [''.btn-primary'']]"

definition three_layers_example :: "css_item list" where
  "three_layers_example =
     [AtLayer ''base'' [''h1''], AtLayer ''components'' [''.btn''],
      AtLayer ''utilities'' [''.text-shadow'']]"

definition bounce_example :: "css_item list" where
  "bounce_example = [AtKeyframes ''bounce-custom'', Rule ''.ball'']"

definition card_example :: "css_item list" where
  "card_example = [AtLayer ''components'' [''.card'', ''.card-title'', ''.card-text'']]"

definition stylesheet_examples :: "css_item list list" where
  "stylesheet_examples =
     [directives_example, layer_example, apply_example, theme_function_example,
      root_variables_example, media_example, keyframes_example, supports_example,
      import_example, font_face_example, notification_example, css_variables_example,
      slide_in_example, reduced_motion_example, grid_layout_example, stylesheet_entry,
      apply_syntax_example, button_example, three_layers_example, bounce_example,
      card_example]"

subsection \<open>Priority listings\<close>

text \<open>
  The READMEs state the priority of styles in four listings, each from the
  lowest to the highest: the cascade order and the layer priority of the
  functions-directives README, the layers and the style layer priority of the
  custom-styles README. The last one has six levels; custom CSS outside every
  layer is one of them.
\<close>

datatype level = BrowserDefaults | CustomCSS | InLayer string | InlineStyles

definition cascade_order_listing :: "level list" where
  "cascade_order_listing = [InLayer ''base'', InLayer ''components'', InLayer ''utilities'']"

definition layer_priority_listing :: "level list" where
  "layer_priority_listing = [InLayer ''base'', InLayer ''components'', InLayer ''utilities'']"

definition layers_listing :: "level list" where
  "layers_listing = [InLayer ''base'', InLayer ''components'', InLayer ''utilities'']"

definition style_layer_priority :: "level list" where
  "style_layer_priority =
     [BrowserDefaults, CustomCSS, InLayer ''base'', InLayer ''components'',
      InLayer ''utilities'', InlineStyles]"

definition priority_listings :: "level list list" where
  "priority_listings =
     [cascade_order_listing, layer_priority_listing, layers_listing, style_layer_priority]"

subsection \<open>Reading a stylesheet\<close>

fun tailwind_directives :: "css_item list \<Rightarrow> string list" where
  "tailwind_directives [] = []"
| "tailwind_directives (AtTailwind l # cs) = l # tailwind_directives cs"
| "tailwind_directives (_ # cs) = tailwind_directives cs"

fun layer_names :: "css_item list \<Rightarrow> string list" where
  "layer_names [] = []"
| "layer_names (AtLayer l rs # cs) = l # layer_names cs"
| "layer_names (_ # cs) = layer_names cs"

text \<open>
  The level a style rule stands at: the layer of the block it is written in, or
  custom CSS when it is written outside every layer.
\<close>

fun item_levels :: "css_item \<Rightarrow> (string \<times> level) list" where
  "item_levels (AtLayer l rs) = map (\<lambda>r. (r, InLayer l)) rs"
| "item_levels (Rule r) = [(r, CustomCSS)]"
| "item_levels (AtMedia rs) = map (\<lambda>r. (r, CustomCSS)) rs"
| "item_levels (AtSupports rs) = map (\<lambda>r. (r, CustomCSS)) rs"
| "item_levels _ = []"

definition rule_levels :: "css_item list \<Rightarrow> (string \<times> level) list" where
  "rule_levels sheet = concat (map item_levels sheet)"

definition three_layers :: "string list" where
  "three_layers = [''base'', ''components'', ''utilities'']"

definition in_three_layers :: "level \<Rightarrow> bool" where
  "in_three_layers lv = (lv \<in> set (map InLayer three_layers))"

fun index_of :: "'a \<Rightarrow> 'a list \<Rightarrow> nat option" where
  "index_of x [] = None"
| "index_of x (y # ys) = (if x = y then Some 0 else map_option Suc (index_of x ys))"

text \<open>In a listing, \<open>a\<close> is below \<open>b\<close> when both are listed and \<open>a\<close> comes first.\<close>

definition below :: "level list \<Rightarrow> level \<Rightarrow> level \<Rightarrow> bool" where
  "below listing a b =
     (case index_of a listing of
        None \<Rightarrow> False
      | Some i \<Rightarrow> (case index_of b listing of None \<Rightarrow> False | Some j \<Rightarrow> i < j))"

definition layers_ascending :: "css_item list \<Rightarrow> bool" where
  "layers_ascending sheet =
     sorted_wrt (\<lambda>a b. below cascade_order_listing (InLayer a) (InLayer b)) (layer_names sheet)"

section \<open>Properties of a configuration\<close>

subsection \<open>Top-level keys\<close>

definition recognized_keys :: "string list" where
  "recognized_keys =
     [''content'', ''theme'', ''darkMode'', ''safelist'', ''blocklist'', ''plugins'']"

definition default_exports :: "js_module \<Rightarrow> nat" where
  "default_exports m = length (filter is_export_default m)"

text \<open>A value is trivial when it is an empty array or an empty object.\<close>

definition nontrivial_keys :: "js_module \<Rightarrow> string list" where
  "nontrivial_keys m =
     (case exported m of
        None \<Rightarrow> []
      | Some cfg \<Rightarrow> map fst (filter (\<lambda>(k, v). v \<noteq> VArr [] \<and> v \<noteq> VObj []) (entries cfg)))"

subsection \<open>The theme: extension block and replacement categories\<close>

definition replacement_categories :: "jsval \<Rightarrow> string list" where
  "replacement_categories cfg =
     (case field ''theme'' cfg of
        None \<Rightarrow> []
      | Some th \<Rightarrow> filter (\<lambda>k. k \<noteq> ''extend'') (keys th))"

definition extension_block :: "jsval \<Rightarrow> (string \<times> jsval) list option" where
  "extension_block cfg =
     (case lookup_path [''theme'', ''extend''] cfg of
        Some (VObj ps) \<Rightarrow> Some ps
      | _ \<Rightarrow> None)"

subsection \<open>Content paths\<close>

fun is_glob_string :: "jsval \<Rightarrow> bool" where
  "is_glob_string (VStr s) = (s \<noteq> [])"
| "is_glob_string _ = False"

definition content_globs :: "jsval \<Rightarrow> jsval list option" where
  "content_globs cfg =
     (case field ''content'' cfg of Some (VArr gs) \<Rightarrow> Some gs | _ \<Rightarrow> None)"

subsection \<open>Token scales\<close>

text \<open>
  A design category of the theme holds a token scale, or, as \<^verbatim>\<open>colors\<close> does,
  a nested structure whose members are the scales (\<^verbatim>\<open>colors.brand\<close>). The
  categories are those of the extension block and those placed beside it.
\<close>

definition nested :: "(string \<times> jsval) list \<Rightarrow> bool" where
  "nested ps = (ps \<noteq> [] \<and> list_all (\<lambda>(k, v). is_object v) ps)"

fun category_scales :: "string \<times> jsval \<Rightarrow> (string \<times> (string \<times> jsval) list) list" where
  "category_scales (cat, VObj ps) =
     (if nested ps then map (\<lambda>(k, v). (cat @ ''.'' @ k, entries v)) ps else [(cat, ps)])"
| "category_scales (cat, _) = []"

definition theme_categories :: "jsval \<Rightarrow> (string \<times> jsval) list" where
  "theme_categories cfg =
     (case field ''theme'' cfg of
        None \<Rightarrow> []
      | Some th \<Rightarrow>
          filter (\<lambda>(k, v). k \<noteq> ''extend'') (entries th) @
          (case field ''extend'' th of None \<Rightarrow> [] | Some ext \<Rightarrow> entries ext))"

definition token_scales :: "js_module \<Rightarrow> (string \<times> (string \<times> jsval) list) list" where
  "token_scales m =
     (case exported m of
        None \<Rightarrow> []
      | Some cfg \<Rightarrow> concat (map category_scales (theme_categories cfg)))"

definition scale_values :: "js_module \<Rightarrow> jsval list" where
  "scale_values m = concat (map (\<lambda>(name, ps). map snd ps) (token_scales m))"

definition scale_keys :: "string list \<Rightarrow> js_module \<Rightarrow> string list option" where
  "scale_keys path m =
     (case exported m of
        None \<Rightarrow> None
      | Some cfg \<Rightarrow>
          (case lookup_path path cfg of
             Some (VObj ps) \<Rightarrow> Some (map fst ps)
           | _ \<Rightarrow> None))"

definition shades :: "nat list" where
  "shades = [50, 100, 200, 300, 400, 500, 600, 700, 800, 900]"

definition exactly_ten_shades :: "string list \<Rightarrow> bool" where
  "exactly_ten_shades ks = (length ks = 10 \<and> set ks = set (map string_of_nat shades))"

text \<open>
  The color scales a place writes: the members of its \<^verbatim>\<open>colors\<close> object that
  are objects, each with the place, its name and its keys.
\<close>

fun member_scale :: "string \<Rightarrow> string \<times> jsval \<Rightarrow> (string \<times> string \<times> string list) list" where
  "member_scale place (k, VObj ps) = [(place, k, map fst ps)]"
| "member_scale place (k, _) = []"

fun color_scales_at :: "string \<times> string list \<times> js_module \<Rightarrow> (string \<times> string \<times> string list) list" where
  "color_scales_at (place, path, m) =
     (case exported m of
        None \<Rightarrow> []
      | Some cfg \<Rightarrow>
          (case lookup_path path cfg of
             Some (VObj ps) \<Rightarrow> concat (map (member_scale place) ps)
           | _ \<Rightarrow> []))"

definition all_color_scales :: "(string \<times> string \<times> string list) list" where
  "all_color_scales = concat (map color_scales_at color_sources)"

definition named_variants :: "string list" where
  "named_variants = [''light'', ''DEFAULT'', ''dark'']"

text \<open>Property names as they are written in the object literals of a module.\<close>

fun no_dup_keys :: "expr \<Rightarrow> bool"
and no_dup_elems :: "expr list \<Rightarrow> bool"
and no_dup_props :: "(propname \<times> expr) list \<Rightarrow> bool"
where
  "no_dup_keys (Str s) = True"
| "no_dup_keys (Regex r) = True"
| "no_dup_keys (Arr es) = no_dup_elems es"
| "no_dup_keys (Obj ps) = (distinct (map (\<lambda>(k, e). key_string k) ps) \<and> no_dup_props ps)"
| "no_dup_keys (Ident x) = True"
| "no_dup_keys (Assign x e) = no_dup_keys e"
| "no_dup_elems [] = True"
| "no_dup_elems (e # es) = (no_dup_keys e \<and> no_dup_elems es)"
| "no_dup_props [] = True"
| "no_dup_props ((k, e) # ps) = (no_dup_keys e \<and> no_dup_props ps)"

fun stmt_expr :: "stmt \<Rightarrow> expr" where
  "stmt_expr (ExportDefault e) = e"
| "stmt_expr (ExprStmt e) = e"

definition literal_keys_distinct :: "js_module \<Rightarrow> bool" where
  "literal_keys_distinct m = list_all (\<lambda>s. no_dup_keys (stmt_expr s)) m"

subsection \<open>Shapes of token values\<close>

text \<open>
  A hex code is \<^verbatim>\<open>#\<close> and 3, 4, 6 or 8 hexadecimal digits. A length is a
  decimal number and a unit, or \<^verbatim>\<open>0\<close>. A line-height pair is an array of a
  font size and a line height, the line height given directly or as the
  \<^verbatim>\<open>lineHeight\<close> property of an object. A CSS function string is a call of
  \<^verbatim>\<open>var\<close> or \<^verbatim>\<open>clamp\<close>.
\<close>

definition is_digit :: "char \<Rightarrow> bool" where
  "is_digit c = (c \<in> set ''0123456789'')"

definition is_hex_digit :: "char \<Rightarrow> bool" where
  "is_hex_digit c = (c \<in> set ''0123456789abcdefABCDEF'')"

fun is_hex_code :: "string \<Rightarrow> bool" where
  "is_hex_code [] = False"
| "is_hex_code (c # ds) =
     (c = CHR ''#'' \<and> length ds \<in> {3, 4, 6, 8} \<and> list_all is_hex_digit ds)"

definition is_number :: "string \<Rightarrow> bool" where
  "is_number s =
     (let whole = takeWhile is_digit s; rest = dropWhile is_digit s
      in whole \<noteq> [] \<and>
         (rest = [] \<or>
          (hd rest = CHR ''.'' \<and> tl rest \<noteq> [] \<and> list_all is_digit (tl rest))))"

definition css_units :: "string list" where
  "css_units = [''px'', ''rem'', ''em'', ''%'', ''vw'', ''vh'', ''ch'', ''pt'']"

definition is_length :: "string \<Rightarrow> bool" where
  "is_length s =
     (let num = takeWhile (\<lambda>c. is_digit c \<or> c = CHR ''.'') s;
          unit = dropWhile (\<lambda>c. is_digit c \<or> c = CHR ''.'') s
      in is_number num \<and> (unit \<in> set css_units \<or> (unit = [] \<and> num = ''0'')))"

definition is_css_call :: "string \<Rightarrow> bool" where
  "is_css_call s =
     (s \<noteq> [] \<and> last s = CHR '')'' \<and> (take 4 s = ''var('' \<or> take 6 s = ''clamp(''))"

fun is_hex_color :: "jsval \<Rightarrow> bool" where
  "is_hex_color (VStr s) = is_hex_code s"
| "is_hex_color _ = False"

fun is_length_string :: "jsval \<Rightarrow> bool" where
  "is_length_string (VStr s) = is_length s"
| "is_length_string _ = False"

fun is_line_height_pair :: "jsval \<Rightarrow> bool" where
  "is_line_height_pair (VArr [VStr sz, VStr lh]) =
     (is_length sz \<and> (is_length lh \<or> is_number lh))"
| "is_line_height_pair (VArr [VStr sz, VObj ps]) =
     (is_length sz \<and>
      (case map_of ps ''lineHeight'' of
         Some (VStr lh) \<Rightarrow> is_length lh \<or> is_number lh
       | _ \<Rightarrow> False))"
| "is_line_height_pair _ = False"

fun is_css_function_string :: "jsval \<Rightarrow> bool" where
  "is_css_function_string (VStr s) = is_css_call s"
| "is_css_function_string _ = False"

definition spec_value_shape :: "jsval \<Rightarrow> bool" where
  "spec_value_shape v = (is_hex_color v \<or> is_length_string v \<or> is_line_height_pair v)"

subsection \<open>Safelist and blocklist entries\<close>

definition is_space :: "char \<Rightarrow> bool" where
  "is_space c = (c = CHR '' '')"

fun is_class_name :: "jsval \<Rightarrow> bool" where
  "is_class_name (VStr s) = (s \<noteq> [] \<and> \<not> list_ex is_space s)"
| "is_class_name _ = False"

definition is_pattern_object :: "jsval \<Rightarrow> bool" where
  "is_pattern_object v =
     (case field ''pattern'' v of Some (VRegex r) \<Rightarrow> True | _ \<Rightarrow> False)"

definition list_entries :: "string \<Rightarrow> js_module \<Rightarrow> jsval list" where
  "list_entries k m =
     (case exported m of
        None \<Rightarrow> []
      | Some cfg \<Rightarrow> (case field k cfg of Some (VArr vs) \<Rightarrow> vs | _ \<Rightarrow> []))"

subsection \<open>Literal modules\<close>

fun literal :: "expr \<Rightarrow> bool"
and literal_elems :: "expr list \<Rightarrow> bool"
and literal_props :: "(propname \<times> expr) list \<Rightarrow> bool"
where
  "literal (Str s) = True"
| "literal (Regex r) = True"
| "literal (Arr es) = literal_elems es"
| "literal (Obj ps) = literal_props ps"
| "literal (Ident x) = False"
| "literal (Assign x e) = False"
| "literal_elems [] = True"
| "literal_elems (e # es) = (literal e \<and> literal_elems es)"
| "literal_props [] = True"
| "literal_props ((k, e) # ps) = (literal e \<and> literal_props ps)"

definition literal_module :: "js_module \<Rightarrow> bool" where
  "literal_module m = list_all (\<lambda>s. literal (stmt_expr s)) m"

section \<open>Evaluation lemmas\<close>

subsection \<open>The fragment can fail and can change the scope\<close>

lemma undeclared_identifier_raises:
  "run_module [ExportDefault (Obj [(PName ''plugins'', Arr [Ident ''plugin''])])] [] =
     Inl (ReferenceError ''plugin'')"
  by (simp add: run_module_def)

lemma assignment_changes_scope:
  "run_module [ExprStmt (Assign ''x'' (Str ''b''))] [(''x'', VStr ''a'')] =
     Inr (None, [(''x'', VStr ''b'')])"
  by (simp add: run_module_def)

lemma second_default_export_rejected:
  "run_module [ExportDefault (Obj []), ExportDefault (Obj [])] sc = Inl SyntaxError"
  by (simp add: run_module_def)

lemma repeated_property_last_wins:
  "eval (Obj [(PName ''a'', Str ''1''), (PName ''b'', Str ''2''), (PName ''a'', Str ''3'')]) sc =
     Inr (VObj [(''a'', VStr ''3''), (''b'', VStr ''2'')], sc)"
  by simp

subsection \<open>Literals evaluate to a constant and leave the scope alone\<close>

lemma literal_pure:
  "literal e \<Longrightarrow> \<exists>v. \<forall>sc. eval e sc = Inr (v, sc)"
  "literal_elems es \<Longrightarrow> \<exists>vs. \<forall>sc. eval_elems es sc = Inr (vs, sc)"
  "literal_props ps \<Longrightarrow> \<forall>acc. \<exists>kvs. \<forall>sc. eval_props ps acc sc = Inr (kvs, sc)"
proof (induction e and es and ps rule: literal_literal_elems_literal_props.induct)
  case (3 es)
  then obtain vs where "\<forall>sc. eval_elems es sc = Inr (vs, sc)" by auto
  then show ?case by simp
next
  case (4 ps)
  then obtain kvs where "\<forall>sc. eval_props ps [] sc = Inr (kvs, sc)" by fastforce
  then show ?case by simp
next
  case (8 e es)
  then obtain v vs
    where "\<forall>sc. eval e sc = Inr (v, sc)" "\<forall>sc. eval_elems es sc = Inr (vs, sc)"
    by auto
  then show ?case by simp
next
  case (10 k e ps)
  then obtain v where v: "\<forall>sc. eval e sc = Inr (v, sc)" by auto
  show ?case
  proof
    fix acc
    from 10 obtain kvs
      where "\<forall>sc. eval_props ps (obj_put acc (key_string k) v) sc = Inr (kvs, sc)"
      by fastforce
    with v show "\<exists>kvs. \<forall>sc. eval_props ((k, e) # ps) acc sc = Inr (kvs, sc)" by simp
  qed
qed simp_all

lemma literal_stmts_pure:
  "list_all (\<lambda>s. literal (stmt_expr s)) ss \<Longrightarrow>
     \<forall>ex. \<exists>ex'. \<forall>sc. run_stmts ss ex sc = Inr (ex', sc)"
proof (induction ss)
  case Nil
  then show ?case by simp
next
  case (Cons s ss)
  then have lit: "literal (stmt_expr s)"
    and IH: "\<forall>ex. \<exists>ex'. \<forall>sc. run_stmts ss ex sc = Inr (ex', sc)"
    by simp_all
  from lit obtain v where v: "\<forall>sc. eval (stmt_expr s) sc = Inr (v, sc)"
    using literal_pure(1) by blast
  show ?case
  proof
    fix ex
    show "\<exists>ex'. \<forall>sc. run_stmts (s # ss) ex sc = Inr (ex', sc)"
    proof (cases s)
      case (ExportDefault e)
      from IH obtain ex' where "\<forall>sc. run_stmts ss (Some v) sc = Inr (ex', sc)" by blast
      with v ExportDefault show ?thesis by simp
    next
      case (ExprStmt e)
      from IH obtain ex' where "\<forall>sc. run_stmts ss ex sc = Inr (ex', sc)" by blast
      with v ExprStmt show ?thesis by simp
    qed
  qed
qed

lemma literal_module_pure:
  assumes "literal_module m" and "default_exports m \<le> 1"
  shows "\<exists>ex. \<forall>sc. run_module m sc = Inr (ex, sc)"
proof -
  from assms(1) obtain ex where "\<forall>sc. run_stmts m None sc = Inr (ex, sc)"
    using literal_stmts_pure unfolding literal_module_def by blast
  with assms(2) show ?thesis by (simp add: run_module_def default_exports_def)
qed

subsection \<open>What the two configuration modules export\<close>

lemma run_detecting_classes:
  "run_module detecting_classes_config sc =
     Inr (Some (VObj
        [(''content'', VArr [VStr ''./index.html'', VStr ''./src/**/*.{js,ts,jsx,tsx}'']),
         (''theme'', VObj [(''extend'', VObj [])]),
         (''plugins'', VArr [])]), sc)"
  by (simp add: run_module_def detecting_classes_config_def)

lemma run_functions_directives:
  "run_module functions_directives_config sc =
     Inr (Some (VObj
        [(''content'', VArr [VStr ''./index.html'', VStr ''./src/**/*.{js,ts,jsx,tsx}'']),
         (''theme'', VObj
            [(''extend'', VObj
                [(''colors'', VObj
                    [(''brand'', VObj
                        [(''light'', VStr ''var(--color-brand-light)''),
                         (''DEFAULT'', VStr ''var(--color-brand)''),
                         (''dark'', VStr ''var(--color-brand-dark)'')])]),
                 (''spacing'', VObj [(''dynamic'', VStr ''var(--spacing-dynamic)'')]),
                 (''fontSize'', VObj
                    [(''responsive'', VStr ''clamp(1rem, 2.5vw, 2.5rem)'')])])]),
         (''plugins'', VArr [])]), sc)"
  by (simp add: run_module_def functions_directives_config_def)

lemma exported_detecting_classes:
  "exported detecting_classes_config =
     Some (VObj
        [(''content'', VArr [VStr ''./index.html'', VStr ''./src/**/*.{js,ts,jsx,tsx}'']),
         (''theme'', VObj [(''extend'', VObj [])]),
         (''plugins'', VArr [])])"
  by (simp add: exported_def run_detecting_classes)

lemma exported_functions_directives:
  "exported functions_directives_config =
     Some (VObj
        [(''content'', VArr [VStr ''./index.html'', VStr ''./src/**/*.{js,ts,jsx,tsx}'']),
         (''theme'', VObj
            [(''extend'', VObj
                [(''colors'', VObj
                    [(''brand'', VObj
                        [(''light'', VStr ''var(--color-brand-light)''),
                         (''DEFAULT'', VStr ''var(--color-brand)''),
                         (''dark'', VStr ''var(--color-brand-dark)'')])]),
                 (''spacing'', VObj [(''dynamic'', VStr ''var(--spacing-dynamic)'')]),
                 (''fontSize'', VObj
                    [(''responsive'', VStr ''clamp(1rem, 2.5vw, 2.5rem)'')])])]),
         (''plugins'', VArr [])])"
  by (simp add: exported_def run_functions_directives)

lemma config_files_mem:
  "(''detecting-classes/tailwind.config.js'', detecting_classes_config) \<in> set config_files"
  "(''functions-directives/tailwind.config.js'', functions_directives_config) \<in> set config_files"
  by (simp_all add: config_files_def)

lemma default_exports_configs:
  "default_exports detecting_classes_config = 1"
  "default_exports functions_directives_config = 1"
  by (simp_all add: default_exports_def detecting_classes_config_def
      functions_directives_config_def)

lemma literal_configs:
  "literal_module detecting_classes_config"
  "literal_module functions_directives_config"
  by (simp_all add: literal_module_def detecting_classes_config_def
      functions_directives_config_def)

lemma literal_keys_distinct_configs:
  "literal_keys_distinct detecting_classes_config"
  "literal_keys_distinct functions_directives_config"
  by (simp_all add: literal_keys_distinct_def detecting_classes_config_def
      functions_directives_config_def)

lemma token_scales_detecting_classes: "token_scales detecting_classes_config = []"
  by (simp add: token_scales_def exported_detecting_classes theme_categories_def)

lemma token_scales_functions_directives:
  "token_scales functions_directives_config =
     [(''colors.brand'',
         [(''light'', VStr ''var(--color-brand-light)''),
          (''DEFAULT'', VStr ''var(--color-brand)''),
          (''dark'', VStr ''var(--color-brand-dark)'')]),
      (''spacing'', [(''dynamic'', VStr ''var(--spacing-dynamic)'')]),
      (''fontSize'', [(''responsive'', VStr ''clamp(1rem, 2.5vw, 2.5rem)'')])]"
  by (simp add: token_scales_def exported_functions_directives theme_categories_def nested_def)

subsection \<open>What the README examples export\<close>

lemma shade_strings:
  "map string_of_nat shades =
     [''50'', ''100'', ''200'', ''300'', ''400'', ''500'', ''600'', ''700'', ''800'', ''900'']"
  by (simp add: shades_def string_of_nat.simps)

lemma exported_complete_scale_example:
  "exported complete_scale_example =
     Some (VObj
        [(''brand'', VObj
            [(''50'', VStr ''#...''), (''100'', VStr ''#...''), (''200'', VStr ''#...''),
             (''300'', VStr ''#...''), (''400'', VStr ''#...''), (''500'', VStr ''#...''),
             (''600'', VStr ''#...''), (''700'', VStr ''#...''), (''800'', VStr ''#...''),
             (''900'', VStr ''#...'')])])"
  by (simp add: exported_def run_module_def complete_scale_example_def string_of_nat.simps)

lemma exported_palette_example:
  "exported palette_example =
     Some (VObj
        [(''theme'', VObj
            [(''colors'', VObj
                [(''transparent'', VStr ''transparent''),
                 (''current'', VStr ''currentColor''),
                 (''white'', VStr ''#ffffff''),
                 (''black'', VStr ''#000000''),
                 (''brand'', VObj
                    [(''50'', VStr ''#f0f9ff''),
                     (''500'', VStr ''#0ea5e9''),
                     (''900'', VStr ''#0c3d66'')])])])])"
  by (simp add: exported_def run_module_def palette_example_def string_of_nat.simps)

lemma exported_safelist_example:
  "exported safelist_example =
     Some (VObj
        [(''safelist'', VArr
            [VStr ''bg-red-500'', VStr ''bg-blue-500'', VStr ''text-white'',
             VObj [(''pattern'', VRegex ''bg-(red|green|blue)-(50|100|500)'')]])])"
  by (simp add: exported_def run_module_def safelist_example_def)

lemma exported_blocklist_example:
  "exported blocklist_example =
     Some (VObj [(''blocklist'', VArr [VStr ''container'', VStr ''px-0.5''])])"
  by (simp add: exported_def run_module_def blocklist_example_def)

lemma exported_dynamic_safelist_example:
  "exported dynamic_safelist_example =
     Some (VObj
        [(''safelist'', VArr
            [VStr ''bg-red-500'', VStr ''bg-green-500'', VStr ''bg-blue-500''])])"
  by (simp add: exported_def run_module_def dynamic_safelist_example_def)

lemma exported_custom_colors_example:
  "exported custom_colors_example =
     Some (VObj
        [(''colors'', VObj
            [(''brand'', VObj [(''50'', VStr ''#f0f9ff''), (''100'', VStr ''#e0f2fe'')]),
             (''accent'', VObj
                [(''light'', VStr ''#fbbf24''),
                 (''DEFAULT'', VStr ''#f59e0b''),
                 (''dark'', VStr ''#d97706'')])])])"
  by (simp add: exported_def run_module_def custom_colors_example_def string_of_nat.simps)

lemma exported_semantic_names_example:
  "exported semantic_names_example =
     Some (VObj
        [(''colors'', VObj
            [(''primary'', VStr ''#0ea5e9''),
             (''success'', VStr ''#10b981''),
             (''error'', VStr ''#ef4444'')])])"
  by (simp add: exported_def run_module_def semantic_names_example_def)

lemma exported_color_names_example:
  "exported color_names_example =
     Some (VObj
        [(''colors'', VObj
            [(''blue'', VStr ''#0ea5e9''),
             (''green'', VStr ''#10b981''),
             (''red'', VStr ''#ef4444'')])])"
  by (simp add: exported_def run_module_def color_names_example_def)

lemma all_color_scales_eq:
  "all_color_scales =
     [(''functions-directives/tailwind.config.js'', ''brand'',
         [''light'', ''DEFAULT'', ''dark'']),
      (''theme-variables README: custom colors'', ''brand'', [''50'', ''100'']),
      (''theme-variables README: custom colors'', ''accent'',
         [''light'', ''DEFAULT'', ''dark'']),
      (''theme-variables README: complete scale'', ''brand'',
         [''50'', ''100'', ''200'', ''300'', ''400'', ''500'', ''600'', ''700'', ''800'', ''900'']),
      (''colors README: palette'', ''brand'', [''50'', ''500'', ''900''])]"
  by (simp add: all_color_scales_def color_sources_def exported_functions_directives
      exported_detecting_classes exported_custom_colors_example
      exported_complete_scale_example exported_semantic_names_example
      exported_color_names_example exported_palette_example)

subsection \<open>What the stylesheet examples hold\<close>

lemma stylesheet_examples_mem:
  "apply_example \<in> set stylesheet_examples"
  "three_layers_example \<in> set stylesheet_examples"
  "stylesheet_entry \<in> set stylesheet_examples"
  by (simp_all add: stylesheet_examples_def)

lemma priority_listings_mem:
  "style_layer_priority \<in> set priority_listings"
  by (simp add: priority_listings_def)

lemma layer_names_examples:
  "map layer_names stylesheet_examples =
     [[], [''components'', ''utilities''], [], [], [], [], [], [], [''base''], [''base''],
      [''components''], [''base''], [], [], [], [''base'', ''components'', ''utilities''],
      [], [''components''], [''base'', ''components'', ''utilities''], [], [''components'']]"
  by (simp add: stylesheet_examples_def directives_example_def layer_example_def
      apply_example_def theme_function_example_def root_variables_example_def
      media_example_def keyframes_example_def supports_example_def import_example_def
      font_face_example_def notification_example_def css_variables_example_def
      slide_in_example_def reduced_motion_example_def grid_layout_example_def
      stylesheet_entry_def apply_syntax_example_def button_example_def
      three_layers_example_def bounce_example_def card_example_def)

lemma tailwind_directives_examples:
  "map tailwind_directives stylesheet_examples =
     [[''base'', ''components'', ''utilities''], [], [], [], [], [], [], [], [], [],
      [], [], [], [], [], [''base'', ''components'', ''utilities''],
      [], [], [], [], []]"
  by (simp add: stylesheet_examples_def directives_example_def layer_example_def
      apply_example_def theme_function_example_def root_variables_example_def
      media_example_def keyframes_example_def supports_example_def import_example_def
      font_face_example_def notification_example_def css_variables_example_def
      slide_in_example_def reduced_motion_example_def grid_layout_example_def
      stylesheet_entry_def apply_syntax_example_def button_example_def
      three_layers_example_def bounce_example_def card_example_def)

lemma rule_levels_examples:
  "map rule_levels stylesheet_examples =
     [[],
      [(''.btn-custom'', InLayer ''components''), (''.text-shadow'', InLayer ''utilities'')],
      [(''.btn-primary'', CustomCSS)],
      [(''.header'', CustomCSS)],
      [('':root'', CustomCSS)],
      [(''.sidebar'', CustomCSS), (''body'', CustomCSS), (''*'', CustomCSS)],
      [(''.animated'', CustomCSS)],
      [(''.layout'', CustomCSS), (''.layout'', CustomCSS)],
      [(''body'', InLayer ''base'')],
      [(''body'', InLayer ''base'')],
      [(''.notification'', InLayer ''components'')],
      [('':root'', InLayer ''base'')],
      [(''.hero'', CustomCSS)],
      [(''*'', CustomCSS)],
      [(''.grid-layout'', CustomCSS)],
      [],
      [],
      [(''.btn-primary'', InLayer ''components'')],
      [(''h1'', InLayer ''base''), (''.btn'', InLayer ''components''),
       (''.text-shadow'', InLayer ''utilities'')],
      [(''.ball'', CustomCSS)],
      [(''.card'', InLayer ''components''), (''.card-title'', InLayer ''components''),
       (''.card-text'', InLayer ''components'')]]"
  by (simp add: rule_levels_def stylesheet_examples_def directives_example_def
      layer_example_def apply_example_def theme_function_example_def
      root_variables_example_def media_example_def keyframes_example_def
      supports_example_def import_example_def font_face_example_def
      notification_example_def css_variables_example_def slide_in_example_def
      reduced_motion_example_def grid_layout_example_def stylesheet_entry_def
      apply_syntax_example_def button_example_def three_layers_example_def
      bounce_example_def card_example_def)

lemma below_in_listings:
  "list_all (\<lambda>l. below l (InLayer ''base'') (InLayer ''components'') \<and>
                 below l (InLayer ''components'') (InLayer ''utilities'')) priority_listings"
  by (simp add: priority_listings_def cascade_order_listing_def layer_priority_listing_def
      layers_listing_def style_layer_priority_def below_def)

subsection \<open>The value shapes tell the README's token values apart\<close>

lemma shapes_distinguish:
  "is_hex_color (VStr ''#f0f9ff'') \<and> \<not> is_hex_color (VStr ''3.25rem'') \<and>
   is_length_string (VStr ''3.25rem'') \<and> is_length_string (VStr ''9999px'') \<and>
   is_length_string (VStr ''0'') \<and> \<not> is_length_string (VStr ''#f0f9ff'') \<and>
   is_line_height_pair (VArr [VStr ''0.75rem'', VObj [(''lineHeight'', VStr ''1rem'')]]) \<and>
   \<not> is_line_height_pair (VStr ''1rem'')"
  by (simp add: is_hex_digit_def is_length_def is_number_def is_digit_def css_units_def)

lemma scale_values_all_css_functions:
  "list_all is_css_function_string (scale_values functions_directives_config)"
  by (simp add: scale_values_def token_scales_functions_directives is_css_call_def)

lemma nontrivial_keys_configs:
  "nontrivial_keys detecting_classes_config = [''content'', ''theme'']"
  "nontrivial_keys functions_directives_config = [''content'', ''theme'']"
  by (simp_all add: nontrivial_keys_def exported_detecting_classes
      exported_functions_directives)

section \<open>The claims\<close>

text \<open>
  C1. Each configuration file exports one object, and every top-level key of
  that object is one of \<^verbatim>\<open>content\<close>, \<^verbatim>\<open>theme\<close>, \<^verbatim>\<open>darkMode\<close>,
  \<^verbatim>\<open>safelist\<close>, \<^verbatim>\<open>blocklist\<close>, \<^verbatim>\<open>plugins\<close>.
\<close>

theorem top_level_keys_recognized:
  "\<forall>(path, m) \<in> set config_files.
     default_exports m = 1 \<and>
     (\<exists>ps. exported m = Some (VObj ps) \<and> set (map fst ps) \<subseteq> set recognized_keys)"
  by (simp add: config_files_def default_exports_configs exported_detecting_classes
      exported_functions_directives recognized_keys_def)

theorem top_level_keys_recognized_witness:
  "(''detecting-classes/tailwind.config.js'', detecting_classes_config) \<in> set config_files \<and>
   default_exports detecting_classes_config = 1 \<and>
   (\<exists>ps. exported detecting_classes_config = Some (VObj ps) \<and>
      set (map fst ps) \<subseteq> set recognized_keys)"
  using top_level_keys_recognized config_files_mem(1) by blast

text \<open>
  C2. In each configuration file the theme object holds the extension block
  \<^verbatim>\<open>extend\<close> and no replacement category beside it: every theme category of the
  file lies inside \<^verbatim>\<open>theme.extend\<close>.
\<close>

theorem theme_only_extends:
  "\<forall>(path, m) \<in> set config_files.
     \<exists>cfg ps. exported m = Some cfg \<and> extension_block cfg = Some ps \<and>
       replacement_categories cfg = [] \<and> theme_categories cfg = ps"
  by (simp add: config_files_def exported_detecting_classes exported_functions_directives
      extension_block_def replacement_categories_def theme_categories_def keys_def)

theorem theme_only_extends_witness:
  "(''functions-directives/tailwind.config.js'', functions_directives_config)
     \<in> set config_files \<and>
   (\<exists>cfg ps. exported functions_directives_config = Some cfg \<and>
      extension_block cfg = Some ps \<and> replacement_categories cfg = [] \<and>
      theme_categories cfg = ps)"
  using theme_only_extends config_files_mem(2) by blast

text \<open>
  C3, as the specification states it: every color scale of the configuration, the
  brand scale in particular, has exactly the ten shade keys 50, 100, ..., 900.
  The brand scale of \<^verbatim>\<open>functions-directives/tailwind.config.js\<close> has the three
  named keys \<^verbatim>\<open>light\<close>, \<^verbatim>\<open>DEFAULT\<close> and \<^verbatim>\<open>dark\<close> instead.
\<close>

theorem brand_scale_not_ten_shades:
  "scale_keys [''theme'', ''extend'', ''colors'', ''brand''] functions_directives_config =
     Some [''light'', ''DEFAULT'', ''dark''] \<and>
   \<not> exactly_ten_shades [''light'', ''DEFAULT'', ''dark'']"
  by (simp add: scale_keys_def exported_functions_directives exactly_ten_shades_def)

text \<open>
  C3, amended: every color scale whose keys the configuration files and the
  README configuration examples write out has shade keys among the ten integers
  50, 100, ..., 900, or the three named keys \<^verbatim>\<open>light\<close>, \<^verbatim>\<open>DEFAULT\<close>,
  \<^verbatim>\<open>dark\<close>. There are five such scales. The brand scale has the keys
  \<^verbatim>\<open>light\<close>, \<^verbatim>\<open>DEFAULT\<close>, \<^verbatim>\<open>dark\<close> in
  \<^verbatim>\<open>functions-directives/tailwind.config.js\<close>; 50 and 100, the others left
  to a comment, in the custom colors listing of the theme-variables README; all
  ten shades in the complete scale of that README; and 50, 500, 900 in the
  palette of the colors README. The accent scale of the custom colors listing
  has \<^verbatim>\<open>light\<close>, \<^verbatim>\<open>DEFAULT\<close>, \<^verbatim>\<open>dark\<close>. As written, the complete scale
  is the one of the five whose keys are exactly the ten shades.
\<close>

theorem color_scales_shades_or_variants:
  "all_color_scales =
     [(''functions-directives/tailwind.config.js'', ''brand'',
         [''light'', ''DEFAULT'', ''dark'']),
      (''theme-variables README: custom colors'', ''brand'', [''50'', ''100'']),
      (''theme-variables README: custom colors'', ''accent'',
         [''light'', ''DEFAULT'', ''dark'']),
      (''theme-variables README: complete scale'', ''brand'',
         [''50'', ''100'', ''200'', ''300'', ''400'', ''500'', ''600'', ''700'', ''800'', ''900'']),
      (''colors README: palette'', ''brand'', [''50'', ''500'', ''900''])] \<and>
   (\<forall>(place, name, ks) \<in> set all_color_scales.
      set ks \<subseteq> set (map string_of_nat shades) \<or> ks = named_variants) \<and>
   map (\<lambda>(place, name, ks). exactly_ten_shades ks) all_color_scales =
     [False, False, False, True, False]"
  by (simp add: all_color_scales_eq shade_strings named_variants_def exactly_ten_shades_def)

theorem color_scales_shades_or_variants_witness:
  "(''colors README: palette'', ''brand'', [''50'', ''500'', ''900'']) \<in> set all_color_scales \<and>
   (set [''50'', ''500'', ''900''] \<subseteq> set (map string_of_nat shades) \<or>
    [''50'', ''500'', ''900''] = named_variants)"
proof -
  have mem: "(''colors README: palette'', ''brand'', [''50'', ''500'', ''900''])
               \<in> set all_color_scales"
    by (simp add: all_color_scales_eq)
  from color_scales_shades_or_variants
  have "\<forall>(place, name, ks) \<in> set all_color_scales.
          set ks \<subseteq> set (map string_of_nat shades) \<or> ks = named_variants"
    by blast
  with mem show ?thesis by fastforce
qed

text \<open>
  C4, as the specification states it: every value of a token scale of the
  configuration files is a color hex code, a length string or a line-height
  pair. The value \<^verbatim>\<open>var(--color-brand-light)\<close> of the brand scale is none of
  the three.
\<close>

theorem var_reference_not_spec_shape:
  "VStr ''var(--color-brand-light)'' \<in> set (scale_values functions_directives_config) \<and>
   \<not> spec_value_shape (VStr ''var(--color-brand-light)'')"
  by (simp add: scale_values_def token_scales_functions_directives spec_value_shape_def
      is_length_def is_number_def is_digit_def)

text \<open>
  C4, amended: every value of a token scale of the configuration files is a
  color hex code, a length string, a line-height pair, or a CSS function string
  (a \<^verbatim>\<open>var(...)\<close> reference to a custom property or a \<^verbatim>\<open>clamp(...)\<close>
  expression).
\<close>

theorem scale_values_shapes:
  "\<forall>(path, m) \<in> set config_files. \<forall>v \<in> set (scale_values m).
     is_hex_color v \<or> is_length_string v \<or> is_line_height_pair v \<or>
     is_css_function_string v"
  by (simp add: config_files_def scale_values_def token_scales_functions_directives
      token_scales_detecting_classes is_css_call_def)

theorem scale_values_shapes_witness:
  "(''functions-directives/tailwind.config.js'', functions_directives_config)
     \<in> set config_files \<and>
   VStr ''clamp(1rem, 2.5vw, 2.5rem)'' \<in> set (scale_values functions_directives_config) \<and>
   (is_hex_color (VStr ''clamp(1rem, 2.5vw, 2.5rem)'') \<or>
    is_length_string (VStr ''clamp(1rem, 2.5vw, 2.5rem)'') \<or>
    is_line_height_pair (VStr ''clamp(1rem, 2.5vw, 2.5rem)'') \<or>
    is_css_function_string (VStr ''clamp(1rem, 2.5vw, 2.5rem)''))"
proof -
  have v: "VStr ''clamp(1rem, 2.5vw, 2.5rem)'' \<in> set (scale_values functions_directives_config)"
    by (simp add: scale_values_def token_scales_functions_directives)
  from scale_values_shapes config_files_mem(2)
  have "\<forall>v \<in> set (scale_values functions_directives_config).
          is_hex_color v \<or> is_length_string v \<or> is_line_height_pair v \<or>
          is_css_function_string v"
    by blast
  with v config_files_mem(2) show ?thesis by blast
qed

text \<open>
  C5. In each configuration file \<^verbatim>\<open>content\<close> is a non-empty array of glob
  pattern strings, and \<^verbatim>\<open>./index.html\<close> is one of them.
\<close>

theorem content_lists_index_html:
  "\<forall>(path, m) \<in> set config_files.
     \<exists>cfg gs. exported m = Some cfg \<and> content_globs cfg = Some gs \<and>
       gs \<noteq> [] \<and> list_all is_glob_string gs \<and> VStr ''./index.html'' \<in> set gs"
  by (simp add: config_files_def exported_detecting_classes exported_functions_directives
      content_globs_def)

theorem content_lists_index_html_witness:
  "(''detecting-classes/tailwind.config.js'', detecting_classes_config) \<in> set config_files \<and>
   (\<exists>cfg gs. exported detecting_classes_config = Some cfg \<and> content_globs cfg = Some gs \<and>
      gs \<noteq> [] \<and> list_all is_glob_string gs \<and> VStr ''./index.html'' \<in> set gs)"
  using content_lists_index_html config_files_mem(1) by blast

text \<open>
  C6. Within each token scale of the configuration files the keys are pairwise
  distinct, in the exported object and already in the object literals as they
  are written. Nothing is required of keys of different scales.
\<close>

theorem scale_keys_distinct:
  "\<forall>(path, m) \<in> set config_files.
     literal_keys_distinct m \<and>
     (\<forall>(name, ps) \<in> set (token_scales m). distinct (map fst ps))"
  by (simp add: config_files_def literal_keys_distinct_configs token_scales_detecting_classes
      token_scales_functions_directives)

theorem scale_keys_distinct_witness:
  "(''functions-directives/tailwind.config.js'', functions_directives_config)
     \<in> set config_files \<and>
   (''colors.brand'',
      [(''light'', VStr ''var(--color-brand-light)''),
       (''DEFAULT'', VStr ''var(--color-brand)''),
       (''dark'', VStr ''var(--color-brand-dark)'')])
     \<in> set (token_scales functions_directives_config) \<and>
   literal_keys_distinct functions_directives_config \<and>
   distinct [''light'', ''DEFAULT'', ''dark'']"
proof -
  have sc: "(''colors.brand'',
      [(''light'', VStr ''var(--color-brand-light)''),
       (''DEFAULT'', VStr ''var(--color-brand)''),
       (''dark'', VStr ''var(--color-brand-dark)'')])
     \<in> set (token_scales functions_directives_config)"
    by (simp add: token_scales_functions_directives)
  from scale_keys_distinct config_files_mem(2)
  have "literal_keys_distinct functions_directives_config \<and>
     (\<forall>(name, ps) \<in> set (token_scales functions_directives_config). distinct (map fst ps))"
    by blast
  with config_files_mem(2) sc show ?thesis by fastforce
qed

text \<open>
  C7, as the specification states it: the stylesheet entry has exactly three
  directive lines, and custom rules are organized into exactly three cascade
  layers, base, components and utilities, ranked in that order. The rule
  \<^verbatim>\<open>.btn-primary\<close> of the functions-directives README stands outside every
  layer, and the style layer priority of the custom-styles README has six
  levels, with custom CSS as a level of its own.
\<close>

theorem rule_outside_every_layer:
  "apply_example \<in> set stylesheet_examples \<and>
   (''.btn-primary'', CustomCSS) \<in> set (rule_levels apply_example) \<and>
   \<not> in_three_layers CustomCSS \<and>
   index_of CustomCSS style_layer_priority = Some 1 \<and>
   length style_layer_priority = 6"
  by (simp add: stylesheet_examples_def rule_levels_def apply_example_def in_three_layers_def
      three_layers_def style_layer_priority_def)

text \<open>
  C7, amended: the stylesheet entry has exactly three directive lines, injecting
  base, components and utilities in that order, and no stylesheet example has
  other directives. Every layer block names one of the three layers base,
  components, utilities, each of which is used, and layer blocks follow one
  another in the cascade order. Every priority listing of the READMEs ranks base
  below components and components below utilities. A custom rule stands in one
  of the three layers or outside every layer; the style layer priority of the
  custom-styles README ranks custom CSS outside the layers below the base layer.
\<close>

theorem directives_and_layers:
  "tailwind_directives stylesheet_entry = three_layers \<and>
   map InLayer (layer_names stylesheet_entry) = cascade_order_listing \<and>
   set (concat (map layer_names stylesheet_examples)) = set three_layers \<and>
   (\<forall>sheet \<in> set stylesheet_examples.
      (tailwind_directives sheet = [] \<or> tailwind_directives sheet = three_layers) \<and>
      set (layer_names sheet) \<subseteq> set three_layers \<and>
      layers_ascending sheet \<and>
      (\<forall>(r, lv) \<in> set (rule_levels sheet). in_three_layers lv \<or> lv = CustomCSS)) \<and>
   (\<forall>l \<in> set priority_listings.
      below l (InLayer ''base'') (InLayer ''components'') \<and>
      below l (InLayer ''components'') (InLayer ''utilities'')) \<and>
   below style_layer_priority CustomCSS (InLayer ''base'')"
proof -
  have entry: "tailwind_directives stylesheet_entry = three_layers"
    "map InLayer (layer_names stylesheet_entry) = cascade_order_listing"
    by (simp_all add: stylesheet_entry_def three_layers_def cascade_order_listing_def)
  have used: "set (concat (map layer_names stylesheet_examples)) = set three_layers"
    by (auto simp add: layer_names_examples three_layers_def)
  have dirs: "list_all (\<lambda>ds. ds = [] \<or> ds = three_layers)
                (map tailwind_directives stylesheet_examples)"
    by (simp add: tailwind_directives_examples three_layers_def)
  have names: "list_all (\<lambda>ns. set ns \<subseteq> set three_layers)
                 (map layer_names stylesheet_examples)"
    by (simp add: layer_names_examples three_layers_def)
  have asc: "list_all
               (\<lambda>ns. sorted_wrt (\<lambda>a b. below cascade_order_listing (InLayer a) (InLayer b)) ns)
               (map layer_names stylesheet_examples)"
    by (simp add: layer_names_examples cascade_order_listing_def below_def)
  have lvs: "list_all (\<lambda>rs. \<forall>(r, lv) \<in> set rs. in_three_layers lv \<or> lv = CustomCSS)
               (map rule_levels stylesheet_examples)"
    by (simp add: rule_levels_examples in_three_layers_def three_layers_def)
  have sheets: "\<forall>sheet \<in> set stylesheet_examples.
      (tailwind_directives sheet = [] \<or> tailwind_directives sheet = three_layers) \<and>
      set (layer_names sheet) \<subseteq> set three_layers \<and>
      layers_ascending sheet \<and>
      (\<forall>(r, lv) \<in> set (rule_levels sheet). in_three_layers lv \<or> lv = CustomCSS)"
    using dirs names asc lvs
    by (simp add: list_all_iff layers_ascending_def)
  have listings: "\<forall>l \<in> set priority_listings.
      below l (InLayer ''base'') (InLayer ''components'') \<and>
      below l (InLayer ''components'') (InLayer ''utilities'')"
    using below_in_listings by (simp add: list_all_iff)
  have custom: "below style_layer_priority CustomCSS (InLayer ''base'')"
    by (simp add: style_layer_priority_def below_def)
  from entry used sheets listings custom show ?thesis
    by blast
qed

theorem directives_and_layers_witness:
  "three_layers_example \<in> set stylesheet_examples \<and>
   (''.btn'', InLayer ''components'') \<in> set (rule_levels three_layers_example) \<and>
   style_layer_priority \<in> set priority_listings \<and>
   (tailwind_directives three_layers_example = [] \<or>
    tailwind_directives three_layers_example = three_layers) \<and>
   set (layer_names three_layers_example) \<subseteq> set three_layers \<and>
   layers_ascending three_layers_example \<and>
   (in_three_layers (InLayer ''components'') \<or> InLayer ''components'' = CustomCSS) \<and>
   below style_layer_priority (InLayer ''base'') (InLayer ''components'') \<and>
   below style_layer_priority (InLayer ''components'') (InLayer ''utilities'')"
proof -
  have r: "(''.btn'', InLayer ''components'') \<in> set (rule_levels three_layers_example)"
    by (simp add: rule_levels_def three_layers_example_def)
  from directives_and_layers stylesheet_examples_mem(2)
  have sheet: "(tailwind_directives three_layers_example = [] \<or>
      tailwind_directives three_layers_example = three_layers) \<and>
     set (layer_names three_layers_example) \<subseteq> set three_layers \<and>
     layers_ascending three_layers_example \<and>
     (\<forall>(r, lv) \<in> set (rule_levels three_layers_example). in_three_layers lv \<or> lv = CustomCSS)"
    by blast
  from directives_and_layers priority_listings_mem
  have listing: "below style_layer_priority (InLayer ''base'') (InLayer ''components'') \<and>
     below style_layer_priority (InLayer ''components'') (InLayer ''utilities'')"
    by blast
  from sheet r have "in_three_layers (InLayer ''components'') \<or> InLayer ''components'' = CustomCSS"
    by fastforce
  with sheet listing r stylesheet_examples_mem(2) priority_listings_mem show ?thesis
    by blast
qed

text \<open>
  C8. Every entry of a safelist or a blocklist in the configuration examples is
  a class-name string or a pattern object.
\<close>

theorem list_entries_shapes:
  "\<forall>m \<in> set list_examples.
     \<forall>e \<in> set (list_entries ''safelist'' m @ list_entries ''blocklist'' m).
       is_class_name e \<or> is_pattern_object e"
  by (simp add: list_examples_def list_entries_def exported_safelist_example
      exported_blocklist_example exported_dynamic_safelist_example is_pattern_object_def
      is_space_def)

theorem list_entries_shapes_witness:
  "safelist_example \<in> set list_examples \<and>
   VObj [(''pattern'', VRegex ''bg-(red|green|blue)-(50|100|500)'')]
     \<in> set (list_entries ''safelist'' safelist_example @
            list_entries ''blocklist'' safelist_example) \<and>
   (is_class_name (VObj [(''pattern'', VRegex ''bg-(red|green|blue)-(50|100|500)'')]) \<or>
    is_pattern_object (VObj [(''pattern'', VRegex ''bg-(red|green|blue)-(50|100|500)'')]))"
proof -
  have m: "safelist_example \<in> set list_examples"
    by (simp add: list_examples_def)
  have e: "VObj [(''pattern'', VRegex ''bg-(red|green|blue)-(50|100|500)'')]
     \<in> set (list_entries ''safelist'' safelist_example @
            list_entries ''blocklist'' safelist_example)"
    by (simp add: list_entries_def exported_safelist_example)
  from list_entries_shapes m e show ?thesis by blast
qed

text \<open>
  C9. Running a configuration module is pure: the module is a literal, and from
  every scope it returns the same object, raises no error and leaves the scope
  as it was.
\<close>

theorem config_evaluation_pure:
  "\<forall>(path, m) \<in> set config_files.
     literal_module m \<and>
     (\<exists>cfg. is_object cfg \<and> (\<forall>sc. run_module m sc = Inr (Some cfg, sc)))"
  by (simp add: config_files_def run_detecting_classes run_functions_directives
      literal_configs)

theorem config_evaluation_pure_witness:
  "(''functions-directives/tailwind.config.js'', functions_directives_config)
     \<in> set config_files \<and>
   literal_module functions_directives_config \<and>
   (\<exists>cfg. is_object cfg \<and>
      run_module functions_directives_config [(''window'', VObj [])] =
        Inr (Some cfg, [(''window'', VObj [])]))"
  using config_evaluation_pure config_files_mem(2) by blast

text \<open>
  C10. In each configuration file \<^verbatim>\<open>plugins\<close> is the empty array and
  \<^verbatim>\<open>darkMode\<close>, \<^verbatim>\<open>safelist\<close> and \<^verbatim>\<open>blocklist\<close> are absent, so that no key
  other than \<^verbatim>\<open>content\<close> and \<^verbatim>\<open>theme\<close> has a non-trivial value.
\<close>

theorem plugins_empty_optional_keys_absent:
  "\<forall>(path, m) \<in> set config_files.
     config_field ''plugins'' m = Some (VArr []) \<and>
     config_field ''darkMode'' m = None \<and>
     config_field ''safelist'' m = None \<and>
     config_field ''blocklist'' m = None \<and>
     set (nontrivial_keys m) \<subseteq> {''content'', ''theme''}"
  by (simp add: config_files_def config_field_def nontrivial_keys_configs
      exported_detecting_classes exported_functions_directives)

theorem plugins_empty_optional_keys_absent_witness:
  "(''detecting-classes/tailwind.config.js'', detecting_classes_config) \<in> set config_files \<and>
   config_field ''plugins'' detecting_classes_config = Some (VArr []) \<and>
   config_field ''darkMode'' detecting_classes_config = None \<and>
   config_field ''safelist'' detecting_classes_config = None \<and>
   config_field ''blocklist'' detecting_classes_config = None \<and>
   set (nontrivial_keys detecting_classes_config) \<subseteq> {''content'', ''theme''}"
  using plugins_empty_optional_keys_absent config_files_mem(1) by blast

end
